theory Spec2Isabelle
  imports Main
begin

section \<open>Python strings\<close>

text \<open>
  A Python \<open>str\<close> is a sequence of Unicode code points, and \<open>len\<close> counts code points.
  The review keywords are Korean, so a text is modelled as the list of its code points
  (not as a byte string). ASCII literals of the source are written with \<open>py\<close>.
\<close>

type_synonym pystr = "nat list"

definition py :: "string \<Rightarrow> pystr" where
  "py s = map of_char s"

text \<open>
  \<open>str.isspace\<close> of one code point, which is also what \<open>\s\<close> matches in a \<open>str\<close> pattern:
  the code points CPython classifies as whitespace.
\<close>

definition py_isspace :: "nat \<Rightarrow> bool" where
  "py_isspace c \<longleftrightarrow>
     (9 \<le> c \<and> c \<le> 13) \<or> (28 \<le> c \<and> c \<le> 32) \<or> c = 133 \<or> c = 160 \<or> c = 5760 \<or>
     (8192 \<le> c \<and> c \<le> 8202) \<or> c = 8232 \<or> c = 8233 \<or> c = 8239 \<or> c = 8287 \<or> c = 12288"

text \<open>\<open>s.strip()\<close>: whitespace removed at both ends.\<close>

definition py_strip :: "pystr \<Rightarrow> pystr" where
  "py_strip s = rev (dropWhile py_isspace (rev (dropWhile py_isspace s)))"

text \<open>\<open>s.startswith(p)\<close>.\<close>

definition startswith :: "'a list \<Rightarrow> 'a list \<Rightarrow> bool" where
  "startswith p s \<longleftrightarrow> take (length p) s = p"

text \<open>\<open>sub in s\<close> on strings: \<open>sub\<close> occurs in \<open>s\<close> as a contiguous slice.\<close>

fun py_in :: "'a list \<Rightarrow> 'a list \<Rightarrow> bool" where
  "py_in sub [] \<longleftrightarrow> sub = []"
| "py_in sub (c # cs) \<longleftrightarrow> startswith sub (c # cs) \<or> py_in sub cs"

text \<open>\<open>any(kw in text for kw in kws)\<close>.\<close>

definition any_kw_in :: "pystr list \<Rightarrow> pystr \<Rightarrow> bool" where
  "any_kw_in kws text = list_ex (\<lambda>kw. py_in kw text) kws"

text \<open>
  \<open>s.replace(old, new)\<close>: every occurrence of \<open>old\<close>, leftmost first and without overlap,
  is replaced by \<open>new\<close>. (With an empty \<open>old\<close> Python puts \<open>new\<close> around every character.)
\<close>

function py_replace :: "pystr \<Rightarrow> pystr \<Rightarrow> pystr \<Rightarrow> pystr" where
  "py_replace old new [] = (if old = [] then new else [])"
| "py_replace old new (c # cs) =
     (if old = [] then new @ c # py_replace old new cs
      else if startswith old (c # cs) then new @ py_replace old new (drop (length old - 1) cs)
      else c # py_replace old new cs)"
  by pat_completeness auto
termination
  by (relation "measure (\<lambda>(old, new, s). length s)") auto

text \<open>\<open>xs[:n]\<close> for a Python integer \<open>n\<close>: a negative \<open>n\<close> counts from the end.\<close>

definition py_slice_to :: "'a list \<Rightarrow> int \<Rightarrow> 'a list" where
  "py_slice_to xs n =
     (if 0 \<le> n then take (nat n) xs else take (nat (int (length xs) + n)) xs)"

section \<open>The browser session\<close>

text \<open>
  Python exceptions, by the class that decides which \<open>except\<close> clause catches them:
  \<open>except TimeoutException\<close> catches the first, \<open>except Exception\<close> the first two, and a bare
  \<open>except:\<close> all three (\<open>KeyboardInterrupt\<close> derives from \<open>BaseException\<close> only).
\<close>

datatype exn = TimeoutException | WebDriverException | KeyboardInterrupt

fun is_Exception :: "exn \<Rightarrow> bool" where
  "is_Exception TimeoutException = True"
| "is_Exception WebDriverException = True"
| "is_Exception KeyboardInterrupt = False"

datatype locator = By_ID | By_CSS_SELECTOR | By_XPATH

text \<open>
  A web element, as far as the agent reads it: \<open>el.text\<close>, \<open>el.get_attribute("innerHTML")\<close>
  and \<open>el.get_attribute("href")\<close>. Each read may raise; \<open>get_attribute\<close> returns \<open>None\<close>
  for an attribute the node does not have.
\<close>

record element =
  el_text :: "exn + pystr"
  el_innerHTML :: "exn + pystr option"
  el_href :: "exn + pystr option"

text \<open>
  The Selenium driver is not part of the repository. It is a parameter of the model: a mock
  driver that fixes the outcome of each request (\<open>None\<close>: the request succeeds). Within one
  run of an operation each request is issued at most once, so any deterministic driver
  is represented by such a table.
\<close>

record driver =
  get_result :: "pystr \<Rightarrow> exn option"
  frame_result :: "locator \<Rightarrow> string \<Rightarrow> exn option"
  find_elements_result :: "locator \<Rightarrow> string \<Rightarrow> exn + element list"
  default_content_result :: "exn option"

datatype scope = TopLevel | InFrame string

datatype call =
  Get pystr
  | WaitFrame locator string
  | FindElements locator string
  | DefaultContent

text \<open>
  The state of the session: the requests received so far (the call log of the mock) and
  the query scope.

  Modelled from the spec: the effect of the driver on the query scope. Entering a frame
  "switches the session's query scope into it", and \<open>switch_to.default_content\<close>
  "returns query scope to the top-level document"; a request that raises changes nothing.
\<close>

record session =
  calls :: "call list"
  scope :: scope

definition log_call :: "call \<Rightarrow> session \<Rightarrow> session" where
  "log_call c s = s\<lparr>calls := calls s @ [c]\<rparr>"

definition driver_get :: "driver \<Rightarrow> pystr \<Rightarrow> session \<Rightarrow> exn option \<times> session" where
  "driver_get d url s = (get_result d url, log_call (Get url) s)"

definition frame_to_be_available_and_switch_to_it ::
  "driver \<Rightarrow> locator \<Rightarrow> string \<Rightarrow> session \<Rightarrow> exn option \<times> session" where
  "frame_to_be_available_and_switch_to_it d loc name s =
     (case frame_result d loc name of
        None \<Rightarrow> (None, (log_call (WaitFrame loc name) s)\<lparr>scope := InFrame name\<rparr>)
      | Some e \<Rightarrow> (Some e, log_call (WaitFrame loc name) s))"

definition find_elements ::
  "driver \<Rightarrow> locator \<Rightarrow> string \<Rightarrow> session \<Rightarrow> (exn + element list) \<times> session" where
  "find_elements d loc sel s = (find_elements_result d loc sel, log_call (FindElements loc sel) s)"

definition default_content :: "driver \<Rightarrow> session \<Rightarrow> exn option \<times> session" where
  "default_content d s =
     (case default_content_result d of
        None \<Rightarrow> (None, (log_call DefaultContent s)\<lparr>scope := TopLevel\<rparr>)
      | Some e \<Rightarrow> (Some e, log_call DefaultContent s))"

text \<open>The requests an operation has added to the log.\<close>

definition new_calls :: "session \<Rightarrow> session \<Rightarrow> call list" where
  "new_calls s s' = drop (length (calls s)) (calls s')"

section \<open>\<open>crawl_reviews\<close>\<close>

subsection \<open>Tier 1: the CSS selectors\<close>

definition review_selectors :: "string list" where
  "review_selectors = [''.zPfVt'', ''.YEtwtZFlx'', ''span.Wzv5Z90S4'']"

text \<open>
  The inner loop \<open>for el in elements\<close>. \<open>reviews\<close> is a list that is appended to in place, so
  what was appended before \<open>el.text\<close> raises stays appended: the loop returns the exception
  (if any) together with the list.
\<close>

fun tier1_elements :: "int \<Rightarrow> element list \<Rightarrow> pystr list \<Rightarrow> exn option \<times> pystr list" where
  "tier1_elements max_reviews [] reviews = (None, reviews)"
| "tier1_elements max_reviews (el # els) reviews =
     (case el_text el of
        Inl e \<Rightarrow> (Some e, reviews)
      | Inr t \<Rightarrow>
          (let text = py_strip t in
           if text \<noteq> [] \<and> length text > 10 then
             (let reviews' = reviews @ [text] in
              if int (length reviews') \<ge> max_reviews then (None, reviews')
              else tier1_elements max_reviews els reviews')
           else tier1_elements max_reviews els reviews))"

text \<open>
  The outer loop \<open>for selector in review_selectors\<close>. The bare \<open>except: continue\<close> sends
  every exception to the next selector; \<open>break\<close> is taken only \<open>if reviews\<close>.
\<close>

fun tier1_selectors ::
  "driver \<Rightarrow> int \<Rightarrow> string list \<Rightarrow> pystr list \<Rightarrow> session \<Rightarrow> pystr list \<times> session" where
  "tier1_selectors d max_reviews [] reviews s = (reviews, s)"
| "tier1_selectors d max_reviews (selector # rest) reviews s =
     (case find_elements d By_CSS_SELECTOR selector s of
        (Inl e, s') \<Rightarrow> tier1_selectors d max_reviews rest reviews s'
      | (Inr elements, s') \<Rightarrow>
          if elements \<noteq> [] then
            (case tier1_elements max_reviews elements reviews of
               (Some e, reviews') \<Rightarrow> tier1_selectors d max_reviews rest reviews' s'
             | (None, reviews') \<Rightarrow>
                 if reviews' \<noteq> [] then (reviews', s')
                 else tier1_selectors d max_reviews rest reviews' s')
          else tier1_selectors d max_reviews rest reviews s')"

subsection \<open>Tier 2: the review list\<close>

definition review_list_selector :: string where
  "review_list_selector =
     ''ul#_review_list a[role=\"button\"][data-pui-click-code=\"rvshowless\"]''"

text \<open>
  The ten keywords of the Tier 2 filter (Hangul words of the source), as code points.
\<close>

definition tier2_keywords :: "pystr list" where
  "tier2_keywords =
     [[47579, 51080], [51339, 50520], [52628, 52380], [48324, 47196], [45796, 49884],
      [52828, 51208], [48516, 50948, 44592], [52572, 44256], [51116, 48140], [55141, 48120]]"

text \<open>
  \<open>text and len(text) > 20 and len(text) < 1000 and any(kw in text for kw in [...])\<close>
\<close>

definition tier2_accept :: "pystr \<Rightarrow> bool" where
  "tier2_accept text \<longleftrightarrow>
     text \<noteq> [] \<and> length text > 20 \<and> length text < 1000 \<and> any_kw_in tier2_keywords text"

text \<open>
  \<open>html_content.replace("<br>", "\n").replace("&nbsp;", " ").strip()\<close>, then \<open>unescape\<close>.
  \<open>html.unescape\<close> belongs to the standard library and is a parameter.
\<close>

definition tier2_text :: "(pystr \<Rightarrow> pystr) \<Rightarrow> pystr \<Rightarrow> pystr" where
  "tier2_text unescape html_content =
     unescape (py_strip (py_replace (py ''&nbsp;'') (py '' '')
                          (py_replace (py ''<br>'') [10] html_content)))"

text \<open>
  The loop \<open>for a in a_tags\<close>. Its \<open>except Exception: continue\<close> skips an element whose
  attribute read raises an \<open>Exception\<close>, and one without \<open>innerHTML\<close> (\<open>None.replace\<close>
  raises \<open>AttributeError\<close>); any other exception leaves the loop.
\<close>

fun tier2_elements ::
  "(pystr \<Rightarrow> pystr) \<Rightarrow> int \<Rightarrow> element list \<Rightarrow> pystr list \<Rightarrow> exn option \<times> pystr list" where
  "tier2_elements unescape max_reviews [] reviews = (None, reviews)"
| "tier2_elements unescape max_reviews (a # as) reviews =
     (case el_innerHTML a of
        Inl e \<Rightarrow>
          if is_Exception e then tier2_elements unescape max_reviews as reviews
          else (Some e, reviews)
      | Inr None \<Rightarrow> tier2_elements unescape max_reviews as reviews
      | Inr (Some html_content) \<Rightarrow>
          (let text = tier2_text unescape html_content in
           if tier2_accept text then
             (let reviews' = reviews @ [text] in
              if int (length reviews') \<ge> max_reviews then (None, reviews')
              else tier2_elements unescape max_reviews as reviews')
           else tier2_elements unescape max_reviews as reviews))"

text \<open>
  \<open>if not reviews: try: ... except Exception\<close>: an \<open>Exception\<close> of the query is logged and
  dropped, anything else propagates.
\<close>

definition tier2 ::
  "driver \<Rightarrow> (pystr \<Rightarrow> pystr) \<Rightarrow> int \<Rightarrow> pystr list \<Rightarrow> session \<Rightarrow>
     (exn + pystr list) \<times> session" where
  "tier2 d unescape max_reviews reviews s =
     (if reviews = [] then
        (case find_elements d By_CSS_SELECTOR review_list_selector s of
           (Inl e, s') \<Rightarrow> if is_Exception e then (Inr reviews, s') else (Inl e, s')
         | (Inr a_tags, s') \<Rightarrow>
             (case tier2_elements unescape max_reviews a_tags reviews of
                (Some e, reviews') \<Rightarrow> (Inl e, s')
              | (None, reviews') \<Rightarrow> (Inr reviews', s')))
      else (Inr reviews, s))"

subsection \<open>Tier 3: every node with text\<close>

definition all_texts_xpath :: string where
  "all_texts_xpath = ''//*[text()]''"

text \<open>The six keywords of the Tier 3 filter, as code points.\<close>

definition tier3_keywords :: "pystr list" where
  "tier3_keywords =
     [[51339, 45796], [52628, 52380], [48324, 47196], [47579, 51080], [52828, 51208],
      [45796, 49884]]"

text \<open>\<open>20 < len(text) < 500 and any(kw in text for kw in [...])\<close>\<close>

definition tier3_accept :: "pystr \<Rightarrow> bool" where
  "tier3_accept text \<longleftrightarrow>
     20 < length text \<and> length text < 500 \<and> any_kw_in tier3_keywords text"

text \<open>The loop \<open>for el in all_texts\<close>; its bare \<open>except: continue\<close> skips every failing node.\<close>

fun tier3_elements :: "int \<Rightarrow> element list \<Rightarrow> pystr list \<Rightarrow> pystr list" where
  "tier3_elements max_reviews [] reviews = reviews"
| "tier3_elements max_reviews (el # els) reviews =
     (case el_text el of
        Inl e \<Rightarrow> tier3_elements max_reviews els reviews
      | Inr t \<Rightarrow>
          (let text = py_strip t in
           if tier3_accept text then
             (let reviews' = reviews @ [text] in
              if int (length reviews') \<ge> max_reviews then reviews'
              else tier3_elements max_reviews els reviews')
           else tier3_elements max_reviews els reviews))"

definition tier3 :: "driver \<Rightarrow> int \<Rightarrow> pystr list \<Rightarrow> session \<Rightarrow> pystr list \<times> session" where
  "tier3 d max_reviews reviews s =
     (if reviews = [] then
        (case find_elements d By_XPATH all_texts_xpath s of
           (Inl e, s') \<Rightarrow> (reviews, s')
         | (Inr all_texts, s') \<Rightarrow> (tier3_elements max_reviews all_texts reviews, s'))
      else (reviews, s))"

subsection \<open>Deduplication and the whole operation\<close>

text \<open>The loop \<open>for r in reviews: if r not in seen: unique_reviews.append(r); seen.add(r)\<close>.\<close>

fun dedup_loop :: "pystr list \<Rightarrow> pystr set \<Rightarrow> pystr list \<Rightarrow> pystr list" where
  "dedup_loop [] seen unique_reviews = unique_reviews"
| "dedup_loop (r # rs) seen unique_reviews =
     (if r \<notin> seen then dedup_loop rs (insert r seen) (unique_reviews @ [r])
      else dedup_loop rs seen unique_reviews)"

definition normalize :: "pystr list \<Rightarrow> int \<Rightarrow> pystr list" where
  "normalize reviews max_reviews = py_slice_to (dedup_loop reviews {} []) max_reviews"

text \<open>
  The body of the outer \<open>try\<close>, from \<open>self.driver.get(place_url)\<close> to the final \<open>return\<close>.
  \<open>Inl e\<close>: the body raised \<open>e\<close>.
\<close>

definition crawl_body ::
  "driver \<Rightarrow> (pystr \<Rightarrow> pystr) \<Rightarrow> pystr \<Rightarrow> int \<Rightarrow> session \<Rightarrow> (exn + pystr list) \<times> session" where
  "crawl_body d unescape place_url max_reviews s =
     (case driver_get d place_url s of
        (Some e, s1) \<Rightarrow> (Inl e, s1)
      | (None, s1) \<Rightarrow>
          (case frame_to_be_available_and_switch_to_it d By_ID ''entryIframe'' s1 of
             (Some e, s2) \<Rightarrow> if e = TimeoutException then (Inr [], s2) else (Inl e, s2)
           | (None, s2) \<Rightarrow>
               (case tier1_selectors d max_reviews review_selectors [] s2 of
                  (reviews1, s3) \<Rightarrow>
                    (case tier2 d unescape max_reviews reviews1 s3 of
                       (Inl e, s4) \<Rightarrow> (Inl e, s4)
                     | (Inr reviews2, s4) \<Rightarrow>
                         (case tier3 d max_reviews reviews2 s4 of
                            (reviews3, s5) \<Rightarrow> (Inr (normalize reviews3 max_reviews), s5))))))"

text \<open>
  \<open>crawl_reviews\<close>: the guard \<open>if not place_url: return []\<close> comes before the \<open>try\<close>; then
  the body, \<open>except Exception: return []\<close>, and the \<open>finally\<close> block, which calls
  \<open>switch_to.default_content()\<close> and drops whatever that raises.
\<close>

definition crawl_reviews ::
  "driver \<Rightarrow> (pystr \<Rightarrow> pystr) \<Rightarrow> pystr option \<Rightarrow> int \<Rightarrow> session \<Rightarrow>
     (exn + pystr list) \<times> session" where
  "crawl_reviews d unescape place_url max_reviews s =
     (case place_url of
        None \<Rightarrow> (Inr [], s)
      | Some url \<Rightarrow>
          if url = [] then (Inr [], s)
          else
            (case crawl_body d unescape url max_reviews s of
               (r, s1) \<Rightarrow>
                 (let result = (case r of
                                  Inl e \<Rightarrow> if is_Exception e then Inr [] else Inl e
                                | Inr reviews \<Rightarrow> Inr reviews)
                  in (result, snd (default_content d s1)))))"

text \<open>
  The order the spec asks of the result ("first-seen order"): an element is kept where it
  occurs first, and dropped from the rest of the list.
\<close>

fun first_occurrences :: "'a list \<Rightarrow> 'a list" where
  "first_occurrences [] = []"
| "first_occurrences (x # xs) = x # filter (\<lambda>y. y \<noteq> x) (first_occurrences xs)"

text \<open>
  The acceptance predicate in the spec's words: the length lies strictly inside a window
  and some keyword of the set occurs in the text.
\<close>

definition occurs_in :: "'a list \<Rightarrow> 'a list \<Rightarrow> bool" where
  "occurs_in kw text \<longleftrightarrow> (\<exists>before after. text = before @ kw @ after)"

definition spec_accept :: "nat \<Rightarrow> nat \<Rightarrow> pystr list \<Rightarrow> pystr \<Rightarrow> bool" where
  "spec_accept lo hi kws text \<longleftrightarrow>
     lo < length text \<and> length text < hi \<and> (\<exists>kw \<in> set kws. occurs_in kw text)"

section \<open>\<open>search_naver_place\<close>\<close>

definition place_selectors :: "string list" where
  "place_selectors =
     [''a[href*='' @ [CHR 0x27] @ ''place.naver.com'' @ [CHR 0x27] @ '']'',
      ''a[href*='' @ [CHR 0x27] @ ''/place/'' @ [CHR 0x27] @ '']'',
      ''.place_bluelink a'']"

text \<open>
  \<open>re.sub(r'placePath=[^&]*', 'placePath=/review', place_url)\<close>: the string is scanned from
  the left; where \<open>placePath=\<close> starts, it and the longest run of characters other than
  \<open>&\<close> (code point 38) after it are replaced, and the scan goes on behind the match.
\<close>

function sub_placePath :: "pystr \<Rightarrow> pystr" where
  "sub_placePath [] = []"
| "sub_placePath (c # cs) =
     (if startswith (py ''placePath='') (c # cs)
      then py ''placePath=/review'' @ sub_placePath (dropWhile (\<lambda>x. x \<noteq> 38) (drop 9 cs))
      else c # sub_placePath cs)"
  by pat_completeness auto
termination
proof (relation "measure length")
  show "wf (measure length)"
    by simp
next
  fix c :: nat and cs :: pystr
  have "length (dropWhile (\<lambda>x. x \<noteq> 38) (drop 9 cs)) \<le> length (drop 9 cs)"
    by (rule length_dropWhile_le)
  also have "\<dots> \<le> length cs"
    by simp
  finally show "(dropWhile (\<lambda>x. x \<noteq> 38) (drop 9 cs), c # cs) \<in> measure length"
    by simp
next
  fix c :: nat and cs :: pystr
  show "(cs, c # cs) \<in> measure length"
    by simp
qed

text \<open>The two branches of \<open>if "placePath=" in place_url\<close>.\<close>

definition review_tab_url :: "pystr \<Rightarrow> pystr" where
  "review_tab_url place_url =
     (if py_in (py ''placePath='') place_url then sub_placePath place_url
      else place_url @ py ''&placePath=/review'')"

text \<open>
  The loop \<open>for selector in place_selectors\<close>. Everything inside its \<open>try\<close> that raises is
  caught by the bare \<open>except: continue\<close>: the query, the read of \<open>href\<close>, and the test
  \<open>"placePath=" in place_url\<close> on a \<open>href\<close> that is \<open>None\<close> (a \<open>TypeError\<close>).
\<close>

fun place_selectors_loop :: "driver \<Rightarrow> string list \<Rightarrow> session \<Rightarrow> pystr option \<times> session" where
  "place_selectors_loop d [] s = (None, s)"
| "place_selectors_loop d (selector # rest) s =
     (case find_elements d By_CSS_SELECTOR selector s of
        (Inl e, s') \<Rightarrow> place_selectors_loop d rest s'
      | (Inr place_elements, s') \<Rightarrow>
          (case place_elements of
             [] \<Rightarrow> place_selectors_loop d rest s'
           | el # _ \<Rightarrow>
               (case el_href el of
                  Inl e \<Rightarrow> place_selectors_loop d rest s'
                | Inr None \<Rightarrow> place_selectors_loop d rest s'
                | Inr (Some place_url) \<Rightarrow> (Some (review_tab_url place_url), s'))))"

text \<open>
  What one round of the loop obtains from a selector: the \<open>href\<close> of the first match, if
  the query succeeds, matches a node, and the attribute is read as a string.
\<close>

definition first_link :: "driver \<Rightarrow> string \<Rightarrow> pystr option" where
  "first_link d selector =
     (case find_elements_result d By_CSS_SELECTOR selector of
        Inl e \<Rightarrow> None
      | Inr place_elements \<Rightarrow>
          (case place_elements of
             [] \<Rightarrow> None
           | el # _ \<Rightarrow> (case el_href el of Inl e \<Rightarrow> None | Inr href \<Rightarrow> href)))"

text \<open>
  \<open>search_naver_place\<close>; \<open>urllib.parse.quote\<close> is a parameter. The outer
  \<open>except Exception: return None\<close> covers the query string and the navigation.
\<close>

definition search_naver_place ::
  "driver \<Rightarrow> (pystr \<Rightarrow> exn + pystr) \<Rightarrow> pystr \<Rightarrow> pystr \<Rightarrow> session \<Rightarrow>
     (exn + pystr option) \<times> session" where
  "search_naver_place d quote destination region s =
     (let search_query = region @ py '' '' @ destination in
      case quote search_query of
        Inl e \<Rightarrow> (if is_Exception e then Inr None else Inl e, s)
      | Inr quoted \<Rightarrow>
          (let search_url = py ''https://search.naver.com/search.naver?query='' @ quoted in
           case driver_get d search_url s of
             (Some e, s1) \<Rightarrow> (if is_Exception e then Inr None else Inl e, s1)
           | (None, s1) \<Rightarrow>
               (case place_selectors_loop d place_selectors s1 of
                  (place_url, s2) \<Rightarrow> (Inr place_url, s2))))"

section \<open>\<open>get_travel_destinations\<close>\<close>

text \<open>
  \<open>str.isdecimal\<close> of one code point, which is what \<open>\d\<close> matches in a \<open>str\<close> pattern: the
  decimal digits of every script (Unicode 14.0, the blocks as inclusive ranges).
\<close>

definition decimal_ranges :: "(nat \<times> nat) list" where
  "decimal_ranges =
     [(48, 57), (1632, 1641), (1776, 1785), (1984, 1993), (2406, 2415), (2534, 2543),
      (2662, 2671), (2790, 2799), (2918, 2927), (3046, 3055), (3174, 3183), (3302, 3311),
      (3430, 3439), (3558, 3567), (3664, 3673), (3792, 3801), (3872, 3881), (4160, 4169),
      (4240, 4249), (6112, 6121), (6160, 6169), (6470, 6479), (6608, 6617), (6784, 6793),
      (6800, 6809), (6992, 7001), (7088, 7097), (7232, 7241), (7248, 7257), (42528, 42537),
      (43216, 43225), (43264, 43273), (43472, 43481), (43504, 43513), (43600, 43609),
      (44016, 44025), (65296, 65305), (66720, 66729), (68912, 68921), (69734, 69743),
      (69872, 69881), (69942, 69951), (70096, 70105), (70384, 70393), (70736, 70745),
      (70864, 70873), (71248, 71257), (71360, 71369), (71472, 71481), (71904, 71913),
      (72016, 72025), (72784, 72793), (73040, 73049), (73120, 73129), (92768, 92777),
      (92864, 92873), (93008, 93017), (120782, 120831), (123200, 123209), (123632, 123641),
      (125264, 125273), (130032, 130041)]"

definition py_isdecimal :: "nat \<Rightarrow> bool" where
  "py_isdecimal c = list_ex (\<lambda>(lo, hi). lo \<le> c \<and> c \<le> hi) decimal_ranges"

text \<open>\<open>s.split(sep)\<close> for a separator of one character: always at least one piece.\<close>

fun py_split :: "nat \<Rightarrow> pystr \<Rightarrow> pystr list" where
  "py_split sep [] = [[]]"
| "py_split sep (c # cs) =
     (if c = sep then [] # py_split sep cs
      else (case py_split sep cs of
              [] \<Rightarrow> [[c]]
            | piece # pieces \<Rightarrow> (c # piece) # pieces))"

text \<open>
  \<open>re.sub(r'^\d+\.\s*', '', s)\<close>: the pattern is anchored at the start, so it matches at
  most once: one or more digits, a full stop (code point 46), and the whitespace after it.
\<close>

definition strip_ordinal :: "pystr \<Rightarrow> pystr" where
  "strip_ordinal s =
     (case s of
        [] \<Rightarrow> []
      | c # cs \<Rightarrow>
          if py_isdecimal c then
            (case dropWhile py_isdecimal cs of
               [] \<Rightarrow> s
             | dot # after \<Rightarrow> if dot = 46 then dropWhile py_isspace after else s)
          else s)"

text \<open>The loop \<open>for line in response.text.strip().split('\n')\<close>.\<close>

fun destinations_loop :: "pystr list \<Rightarrow> pystr list \<Rightarrow> pystr list" where
  "destinations_loop [] destinations = destinations"
| "destinations_loop (line # lines) destinations =
     (if py_strip line \<noteq> [] then
        (let destination = strip_ordinal (py_strip line) in
         if destination \<noteq> [] then destinations_loop lines (destinations @ [destination])
         else destinations_loop lines destinations)
      else destinations_loop lines destinations)"

text \<open>
  The fallback dictionary of the \<open>except\<close> branch: three regions, five names each, and the
  default of \<open>default_destinations.get\<close> (all Hangul, as code points).
\<close>

definition default_destinations :: "pystr \<rightharpoonup> pystr list" where
  "default_destinations =
     [[49436, 50872] \<mapsto>
        [[44221, 48373, 44417], [47749, 46041], [54861, 45824], [44053, 45224],
         [54620, 44053, 44277, 50896]],
      [48512, 49328] \<mapsto>
        [[54644, 50868, 45824], [44305, 50504, 47532], [53468, 51333, 45824],
         [44048, 52380, 47928, 54868, 47560, 51012], [51088, 44040, 52824, 49884, 51109]],
      [44221, 51452] \<mapsto>
        [[48520, 44397, 49324], [49437, 44404, 50516], [52392, 49457, 45824],
         [50504, 50517, 51648], [45824, 47497, 50896]]]"

definition generic_destinations :: "pystr list" where
  "generic_destinations =
     [[49884, 52397], [50669, 49324], [44277, 50896], [49884, 51109],
      [47928, 54868, 49468, 53552]]"

text \<open>
  \<open>get_travel_destinations\<close>. The generative model is not part of the repository:
  \<open>response\<close> is what \<open>self.model.generate_content(prompt).text\<close> gives for the region,
  \<open>Inl e\<close> when the call or the read of \<open>.text\<close> raises \<open>e\<close>.
\<close>

definition get_travel_destinations :: "(exn + pystr) \<Rightarrow> pystr \<Rightarrow> exn + pystr list" where
  "get_travel_destinations response region =
     (case response of
        Inr text \<Rightarrow> Inr (py_slice_to (destinations_loop (py_split 10 (py_strip text)) []) 5)
      | Inl e \<Rightarrow>
          if is_Exception e then
            Inr (case default_destinations region of
                   Some names \<Rightarrow> names
                 | None \<Rightarrow> generic_destinations)
          else Inl e)"

section \<open>Concrete sessions\<close>

text \<open>Mock pages and sessions on which the theorems below are instantiated.\<close>

definition text_node :: "pystr \<Rightarrow> element" where
  "text_node t = \<lparr>el_text = Inr t, el_innerHTML = Inr None, el_href = Inr None\<rparr>"

definition mock_driver :: "(locator \<Rightarrow> string \<Rightarrow> exn + element list) \<Rightarrow> driver" where
  "mock_driver table =
     \<lparr>get_result = (\<lambda>_. None), frame_result = (\<lambda>_ _. None),
      find_elements_result = table, default_content_result = None\<rparr>"

definition fresh_session :: session where
  "fresh_session = \<lparr>calls = [], scope = TopLevel\<rparr>"

definition page_with_duplicates :: "locator \<Rightarrow> string \<Rightarrow> exn + element list" where
  "page_with_duplicates loc sel =
     (if loc = By_CSS_SELECTOR \<and> sel = ''.zPfVt''
      then Inr [text_node (py ''  a long enough review ''),
                text_node (py ''a long enough review''),
                text_node (py ''another long one!'')]
      else Inr [])"

definition frameless_driver :: driver where
  "frameless_driver =
     (mock_driver page_with_duplicates)\<lparr>frame_result := (\<lambda>_ _. Some TimeoutException)\<rparr>"

definition stale_session :: session where
  "stale_session = \<lparr>calls = [], scope = InFrame ''entryIframe''\<rparr>"

definition page_short_first :: "locator \<Rightarrow> string \<Rightarrow> exn + element list" where
  "page_short_first loc sel =
     (if loc = By_CSS_SELECTOR \<and> sel = ''.zPfVt'' then Inr [text_node (py ''too short'')]
      else if loc = By_CSS_SELECTOR \<and> sel = ''.YEtwtZFlx''
      then Inr [text_node (py ''a long enough review'')]
      else Inr [])"

definition text_with_keyword :: pystr where
  "text_with_keyword = [52628, 52380] @ replicate 19 97"

definition link_node :: "pystr \<Rightarrow> element" where
  "link_node href = \<lparr>el_text = Inr [], el_innerHTML = Inr None, el_href = Inr (Some href)\<rparr>"

definition stale_link :: element where
  "stale_link = \<lparr>el_text = Inr [], el_innerHTML = Inr None, el_href = Inl WebDriverException\<rparr>"

definition page_stale_first_link :: "locator \<Rightarrow> string \<Rightarrow> exn + element list" where
  "page_stale_first_link loc sel =
     (if loc = By_CSS_SELECTOR \<and> sel = place_selectors ! 0 then Inr [stale_link]
      else if loc = By_CSS_SELECTOR \<and> sel = place_selectors ! 1
      then Inr [link_node (py ''https://m.place.naver.com/place/1?entry=pll'')]
      else Inr [])"

definition empty_page :: "locator \<Rightarrow> string \<Rightarrow> exn + element list" where
  "empty_page loc sel = Inr []"

section \<open>Deduplication and the bound on the result\<close>


text \<open>The loop keeps each snippet where it is seen first.\<close>

lemma dedup_loop_first_seen:
  "dedup_loop rs seen u = u @ filter (\<lambda>x. x \<notin> seen) (first_occurrences rs)"
proof (induction rs arbitrary: seen u)
  case Nil
  then show ?case by simp
next
  case (Cons r rs)
  show ?case
  proof (cases "r \<in> seen")
    case True
    then have "filter (\<lambda>x. x \<noteq> r \<and> x \<notin> seen) (first_occurrences rs) =
               filter (\<lambda>x. x \<notin> seen) (first_occurrences rs)"
      by (intro filter_cong) auto
    with True show ?thesis by (simp add: Cons.IH conj_commute)
  next
    case False
    have "filter (\<lambda>x. x \<notin> insert r seen) (first_occurrences rs) =
          filter (\<lambda>x. x \<notin> seen \<and> x \<noteq> r) (first_occurrences rs)"
      by (intro filter_cong) auto
    with False show ?thesis by (simp add: Cons.IH)
  qed
qed

lemma normalize_first_seen:
  "0 \<le> n \<Longrightarrow> normalize reviews n = take (nat n) (first_occurrences reviews)"
  by (simp add: normalize_def py_slice_to_def dedup_loop_first_seen)








section \<open>The exits of \<open>crawl_reviews\<close>\<close>

text \<open>
  Claim C10. Called with an absent place URL (\<open>None\<close> or the empty string),
  \<open>crawl_reviews\<close> returns the empty list through the guard that precedes the \<open>try\<close>: the
  session is returned as it was, so nothing was requested of the driver, neither a
  navigation nor \<open>switch_to.default_content\<close>, and the query scope is what it was.
\<close>

theorem crawl_reviews_absent_url:
  "crawl_reviews d unescape None max_reviews s = (Inr [], s) \<and>
   crawl_reviews d unescape (Some []) max_reviews s = (Inr [], s)"
  by (simp add: crawl_reviews_def)

text \<open>
  Claim C7. If the wait for the frame \<open>entryIframe\<close> ends in a \<open>TimeoutException\<close>,
  \<open>crawl_reviews\<close> returns the empty list as an ordinary value, not an exception, and the
  only requests of the run are the navigation, the wait and the final
  \<open>switch_to.default_content\<close>: no tier has queried the page.
\<close>

theorem frame_timeout_returns_empty:
  assumes "url \<noteq> []"
    and "get_result d url = None"
    and "frame_result d By_ID ''entryIframe'' = Some TimeoutException"
  shows "fst (crawl_reviews d unescape (Some url) max_reviews s) = Inr [] \<and>
         new_calls s (snd (crawl_reviews d unescape (Some url) max_reviews s)) =
           [Get url, WaitFrame By_ID ''entryIframe'', DefaultContent]"
  using assms
  by (simp add: crawl_reviews_def crawl_body_def driver_get_def
      frame_to_be_available_and_switch_to_it_def default_content_def log_call_def new_calls_def
      split: option.splits)

theorem frame_timeout_returns_empty_witness:
  "py ''u'' \<noteq> [] \<and>
   get_result frameless_driver (py ''u'') = None \<and>
   frame_result frameless_driver By_ID ''entryIframe'' = Some TimeoutException \<and>
   fst (crawl_reviews frameless_driver id (Some (py ''u'')) 10 fresh_session) = Inr [] \<and>
   new_calls fresh_session
     (snd (crawl_reviews frameless_driver id (Some (py ''u'')) 10 fresh_session)) =
     [Get (py ''u''), WaitFrame By_ID ''entryIframe'', DefaultContent]"
proof -
  have url: "py ''u'' \<noteq> []"
    by (simp add: py_def)
  have nav: "get_result frameless_driver (py ''u'') = None"
    by (simp add: frameless_driver_def mock_driver_def)
  have frame: "frame_result frameless_driver By_ID ''entryIframe'' = Some TimeoutException"
    by (simp add: frameless_driver_def mock_driver_def)
  from frame_timeout_returns_empty [OF url nav frame, of id 10 fresh_session]
  show ?thesis
    using url nav frame by simp
qed

section \<open>The call log of the tier cascade\<close>

lemma calls_log_call [simp]: "calls (log_call c s) = calls s @ [c]"
  by (simp add: log_call_def)

lemma find_elements_eq:
  "find_elements d loc sel s = (find_elements_result d loc sel, log_call (FindElements loc sel) s)"
  by (simp add: find_elements_def)

text \<open>One round of the Tier 1 loop: it stops with the list as it stands, or goes on.\<close>

lemma tier1_selectors_step:
  "tier1_selectors d n (sel # rest) rs s =
     (case find_elements_result d By_CSS_SELECTOR sel of
        Inl e \<Rightarrow> tier1_selectors d n rest rs (log_call (FindElements By_CSS_SELECTOR sel) s)
      | Inr elements \<Rightarrow>
          if elements = [] then
            tier1_selectors d n rest rs (log_call (FindElements By_CSS_SELECTOR sel) s)
          else if fst (tier1_elements n elements rs) = None \<and>
                  snd (tier1_elements n elements rs) \<noteq> []
          then (snd (tier1_elements n elements rs), log_call (FindElements By_CSS_SELECTOR sel) s)
          else tier1_selectors d n rest (snd (tier1_elements n elements rs))
                 (log_call (FindElements By_CSS_SELECTOR sel) s))"
  by (simp add: find_elements_def split: sum.splits prod.splits option.splits)

lemma tier1_selectors_calls:
  "\<exists>k \<le> length sels.
     calls (snd (tier1_selectors d n sels rs s)) =
       calls s @ map (FindElements By_CSS_SELECTOR) (take k sels)"
proof (induction sels arbitrary: rs s)
  case Nil
  then show ?case by simp
next
  case (Cons sel rest)
  let ?s' = "log_call (FindElements By_CSS_SELECTOR sel) s"
  have "snd (tier1_selectors d n (sel # rest) rs s) = ?s'
        \<or> (\<exists>rs'. tier1_selectors d n (sel # rest) rs s = tier1_selectors d n rest rs' ?s')"
    unfolding tier1_selectors_step by (auto split: sum.splits)
  then show ?case
  proof
    assume "snd (tier1_selectors d n (sel # rest) rs s) = ?s'"
    then have "calls (snd (tier1_selectors d n (sel # rest) rs s)) =
               calls s @ map (FindElements By_CSS_SELECTOR) (take 1 (sel # rest))"
      by simp
    then show ?thesis
      by (intro exI [of _ 1]) simp
  next
    assume "\<exists>rs'. tier1_selectors d n (sel # rest) rs s = tier1_selectors d n rest rs' ?s'"
    then obtain rs' where eq: "tier1_selectors d n (sel # rest) rs s = tier1_selectors d n rest rs' ?s'"
      by blast
    from Cons.IH [of rs' ?s'] obtain k where "k \<le> length rest"
      and "calls (snd (tier1_selectors d n rest rs' ?s')) =
             calls ?s' @ map (FindElements By_CSS_SELECTOR) (take k rest)"
      by blast
    with eq show ?thesis
      by (intro exI [of _ "Suc k"]) simp
  qed
qed

text \<open>What Tier 1 collects does not depend on the session it runs in.\<close>

lemma tier1_selectors_reviews:
  "fst (tier1_selectors d n sels rs s) = fst (tier1_selectors d n sels rs t)"
proof (induction sels arbitrary: rs s t)
  case Nil
  then show ?case by simp
next
  case (Cons sel rest)
  show ?case
    unfolding tier1_selectors_step
    by (auto split: sum.splits intro: Cons.IH)
qed

lemma tier2_idle: "reviews \<noteq> [] \<Longrightarrow> tier2 d unescape n reviews s = (Inr reviews, s)"
  by (simp add: tier2_def)

lemma tier3_idle: "reviews \<noteq> [] \<Longrightarrow> tier3 d n reviews s = (reviews, s)"
  by (simp add: tier3_def)


lemma calls_default_content: "calls (snd (default_content d s)) = calls s @ [DefaultContent]"
  by (simp add: default_content_def split: option.splits)

lemma scope_default_content:
  "default_content_result d = None \<Longrightarrow> scope (snd (default_content d s)) = TopLevel"
  by (simp add: default_content_def)

lemma snd_crawl_reviews:
  "url \<noteq> [] \<Longrightarrow>
     snd (crawl_reviews d unescape (Some url) n s) =
       snd (default_content d (snd (crawl_body d unescape url n s)))"
  by (simp add: crawl_reviews_def split: prod.splits)

lemma review_list_selector_not_tier1: "review_list_selector \<notin> set review_selectors"
  by (simp add: review_list_selector_def review_selectors_def)

lemma tier1_queries_exclude_lower:
  "FindElements By_CSS_SELECTOR review_list_selector
     \<notin> set (map (FindElements By_CSS_SELECTOR) (take k review_selectors))"
  "FindElements By_XPATH all_texts_xpath
     \<notin> set (map (FindElements By_CSS_SELECTOR) (take k review_selectors))"
  using review_list_selector_not_tier1 by (auto dest: in_set_takeD)

lemma crawl_body_tier1_calls:
  assumes "fst (tier1_selectors d n review_selectors [] s0) \<noteq> []"
  shows "\<exists>cs. calls (snd (crawl_body d unescape url n s)) = calls s @ cs \<and>
              FindElements By_CSS_SELECTOR review_list_selector \<notin> set cs \<and>
              FindElements By_XPATH all_texts_xpath \<notin> set cs"
proof (cases "get_result d url")
  case (Some e)
  then have "calls (snd (crawl_body d unescape url n s)) = calls s @ [Get url]"
    by (simp add: crawl_body_def driver_get_def)
  then show ?thesis by simp
next
  case None
  note nav = this
  show ?thesis
  proof (cases "frame_result d By_ID ''entryIframe''")
    case (Some e)
    with nav have "calls (snd (crawl_body d unescape url n s)) =
                     calls s @ [Get url, WaitFrame By_ID ''entryIframe'']"
      by (simp add: crawl_body_def driver_get_def frame_to_be_available_and_switch_to_it_def)
    then show ?thesis by simp
  next
    case None
    define s2 where "s2 = (log_call (WaitFrame By_ID ''entryIframe'')
                            (log_call (Get url) s))\<lparr>scope := InFrame ''entryIframe''\<rparr>"
    define reviews1 where "reviews1 = fst (tier1_selectors d n review_selectors [] s2)"
    define s3 where "s3 = snd (tier1_selectors d n review_selectors [] s2)"
    have t1: "tier1_selectors d n review_selectors [] s2 = (reviews1, s3)"
      by (simp add: reviews1_def s3_def)
    have "reviews1 \<noteq> []"
      using assms tier1_selectors_reviews [of d n review_selectors "[]" s2 s0]
      by (simp add: reviews1_def)
    then have body: "crawl_body d unescape url n s = (Inr (normalize reviews1 n), s3)"
      using nav None t1
      by (simp add: crawl_body_def driver_get_def frame_to_be_available_and_switch_to_it_def
          s2_def tier2_idle tier3_idle)
    from tier1_selectors_calls [of review_selectors d n "[]" s2] obtain k where
      "calls s3 = calls s2 @ map (FindElements By_CSS_SELECTOR) (take k review_selectors)"
      unfolding s3_def by blast
    then have "calls (snd (crawl_body d unescape url n s)) =
                 calls s @ ([Get url, WaitFrame By_ID ''entryIframe''] @
                   map (FindElements By_CSS_SELECTOR) (take k review_selectors))"
      by (simp add: body s2_def)
    then show ?thesis
      using tier1_queries_exclude_lower [of k] by (intro exI conjI) (assumption, auto)
  qed
qed

lemma tier1_extends:
  "tier1_selectors d n sels rs s = (r, s') \<Longrightarrow> \<exists>cs. calls s' = calls s @ cs"
  using tier1_selectors_calls [of sels d n rs s] by auto

lemma tier2_extends:
  "tier2 d unescape n reviews s = (r, s') \<Longrightarrow> \<exists>cs. calls s' = calls s @ cs"
  by (auto simp: tier2_def find_elements_def split: sum.splits prod.splits option.splits if_splits)

lemma tier3_extends:
  "tier3 d n reviews s = (r, s') \<Longrightarrow> \<exists>cs. calls s' = calls s @ cs"
  by (auto simp: tier3_def find_elements_def split: sum.splits prod.splits if_splits)

lemma crawl_body_extends:
  "crawl_body d unescape url n s = (r, s') \<Longrightarrow> \<exists>cs. calls s' = calls s @ cs"
  unfolding crawl_body_def driver_get_def frame_to_be_available_and_switch_to_it_def
  by (auto split: option.splits prod.splits sum.splits if_splits
      dest!: tier1_extends tier2_extends tier3_extends)

text \<open>
  Claim C2. In every run of \<open>crawl_reviews\<close>: if Tier 1 (the loop over \<open>review_selectors\<close>)
  yields at least one accepted snippet, then among the requests of the run there is
  neither the Tier 2 query (the review-list selector) nor the Tier 3 query (the XPath of
  all text nodes). By \<open>tier1_selectors_reviews\<close> what Tier 1 yields is the same in every
  session state, so the hypothesis speaks of an arbitrary one.
\<close>

theorem tier1_success_skips_lower_tiers:
  assumes "fst (tier1_selectors d max_reviews review_selectors [] s0) \<noteq> []"
  shows "FindElements By_CSS_SELECTOR review_list_selector
           \<notin> set (new_calls s (snd (crawl_reviews d unescape place_url max_reviews s))) \<and>
         FindElements By_XPATH all_texts_xpath
           \<notin> set (new_calls s (snd (crawl_reviews d unescape place_url max_reviews s)))"
proof (cases "place_url = None \<or> place_url = Some []")
  case True
  then have "crawl_reviews d unescape place_url max_reviews s = (Inr [], s)"
    by (auto simp: crawl_reviews_def)
  then show ?thesis
    by (simp add: new_calls_def)
next
  case False
  then obtain url where url: "place_url = Some url" "url \<noteq> []"
    by auto
  from crawl_body_tier1_calls [OF assms, of unescape url s] obtain cs where
    cs: "calls (snd (crawl_body d unescape url max_reviews s)) = calls s @ cs"
      "FindElements By_CSS_SELECTOR review_list_selector \<notin> set cs"
      "FindElements By_XPATH all_texts_xpath \<notin> set cs"
    by blast
  have "calls (snd (crawl_reviews d unescape place_url max_reviews s)) =
          calls s @ cs @ [DefaultContent]"
    using url cs(1) by (simp add: snd_crawl_reviews calls_default_content)
  then have "new_calls s (snd (crawl_reviews d unescape place_url max_reviews s)) =
               cs @ [DefaultContent]"
    by (simp add: new_calls_def)
  with cs(2,3) show ?thesis
    by simp
qed

theorem tier1_success_skips_lower_tiers_witness:
  "fst (tier1_selectors (mock_driver page_with_duplicates) 2 review_selectors []
          fresh_session) \<noteq> [] \<and>
   FindElements By_CSS_SELECTOR review_list_selector
     \<notin> set (new_calls fresh_session
               (snd (crawl_reviews (mock_driver page_with_duplicates) id (Some (py ''u'')) 2
                       fresh_session))) \<and>
   FindElements By_XPATH all_texts_xpath
     \<notin> set (new_calls fresh_session
               (snd (crawl_reviews (mock_driver page_with_duplicates) id (Some (py ''u'')) 2
                       fresh_session)))"
proof -
  have yields: "fst (tier1_selectors (mock_driver page_with_duplicates) 2 review_selectors []
                       fresh_session) \<noteq> []"
    by code_simp
  from tier1_success_skips_lower_tiers [OF yields, of fresh_session id "Some (py ''u'')"]
  show ?thesis
    using yields by simp
qed

text \<open>
  Claim C3, as amended. The claim as stated fails: on a page whose first selector matches
  one node with a text of nine characters, the second selector is queried as well (and it
  is the one that supplies the review).
\<close>

theorem tier1_first_match_counterexample:
  "find_elements_result (mock_driver page_short_first) By_CSS_SELECTOR ''.zPfVt'' =
     Inr [text_node (py ''too short'')] \<and>
   new_calls fresh_session
     (snd (crawl_reviews (mock_driver page_short_first) id (Some (py ''u'')) 10 fresh_session)) =
     [Get (py ''u''), WaitFrame By_ID ''entryIframe'', FindElements By_CSS_SELECTOR ''.zPfVt'',
      FindElements By_CSS_SELECTOR ''.YEtwtZFlx'', DefaultContent] \<and>
   fst (crawl_reviews (mock_driver page_short_first) id (Some (py ''u'')) 10 fresh_session) =
     Inr [py ''a long enough review'']"
  by code_simp

text \<open>
  Claim C3 (amended). When a Tier 1 pattern returns at least one node and its nodes are
  read without a fault, the loop stops there, with no later pattern queried, exactly if
  the accumulated list of accepted snippets (what this pattern and the patterns before
  it have appended) is then non-empty; if the list is then still empty, the loop goes on
  to the next pattern.
\<close>

theorem tier1_stops_on_first_accepted:
  assumes "find_elements_result d By_CSS_SELECTOR selector = Inr elements"
    and "elements \<noteq> []"
    and "tier1_elements max_reviews elements reviews = (None, reviews')"
  shows "tier1_selectors d max_reviews (selector # rest) reviews s =
           (if reviews' \<noteq> [] then (reviews', log_call (FindElements By_CSS_SELECTOR selector) s)
            else tier1_selectors d max_reviews rest reviews'
                   (log_call (FindElements By_CSS_SELECTOR selector) s))"
  using assms by (simp add: find_elements_def)

theorem tier1_stops_on_first_accepted_witness:
  "find_elements_result (mock_driver page_short_first) By_CSS_SELECTOR ''.zPfVt'' =
     Inr [text_node (py ''too short'')] \<and>
   [text_node (py ''too short'')] \<noteq> [] \<and>
   tier1_elements 10 [text_node (py ''too short'')] [] = (None, []) \<and>
   tier1_selectors (mock_driver page_short_first) 10
     (''.zPfVt'' # [''.YEtwtZFlx'', ''span.Wzv5Z90S4'']) [] fresh_session =
     tier1_selectors (mock_driver page_short_first) 10 [''.YEtwtZFlx'', ''span.Wzv5Z90S4''] []
       (log_call (FindElements By_CSS_SELECTOR ''.zPfVt'') fresh_session)"
proof -
  have found: "find_elements_result (mock_driver page_short_first) By_CSS_SELECTOR ''.zPfVt'' =
                 Inr [text_node (py ''too short'')]"
    by (simp add: mock_driver_def page_short_first_def)
  have some: "[text_node (py ''too short'')] \<noteq> []"
    by simp
  have none_accepted: "tier1_elements 10 [text_node (py ''too short'')] [] = (None, [])"
    by code_simp
  have step: "tier1_selectors (mock_driver page_short_first) 10
     (''.zPfVt'' # [''.YEtwtZFlx'', ''span.Wzv5Z90S4'']) [] fresh_session =
     tier1_selectors (mock_driver page_short_first) 10 [''.YEtwtZFlx'', ''span.Wzv5Z90S4''] []
       (log_call (FindElements By_CSS_SELECTOR ''.zPfVt'') fresh_session)"
    using tier1_stops_on_first_accepted [OF found some none_accepted,
        of "[''.YEtwtZFlx'', ''span.Wzv5Z90S4'']" fresh_session]
    by (simp only: simp_thms if_False)
  show ?thesis
    by (rule conjI found some none_accepted step)+
qed

section \<open>The reset of the query scope\<close>

text \<open>
  Claim C6, as amended. The claim as stated fails on the exit through the guard
  \<open>if not place_url\<close>: called with the empty URL on a session whose scope is a frame,
  \<open>crawl_reviews\<close> does not call \<open>switch_to.default_content\<close> and leaves the scope in
  the frame.
\<close>

theorem crawl_reviews_resets_scope_counterexample:
  "DefaultContent \<notin>
     set (calls (snd (crawl_reviews (mock_driver page_with_duplicates) id (Some []) 10
                        stale_session))) \<and>
   scope (snd (crawl_reviews (mock_driver page_with_duplicates) id (Some []) 10 stale_session)) =
     InFrame ''entryIframe''"
  by (simp add: crawl_reviews_def stale_session_def)

text \<open>
  Claim C6 (amended). On every exit of \<open>crawl_reviews\<close> taken with a non-empty place URL,
  whether it returns snippets, the empty list, or raises, \<open>switch_to.default_content\<close>
  is the last request of the run; and when that request does not itself fail, the query
  scope is the top-level document on return.
\<close>

theorem crawl_reviews_resets_scope:
  assumes "url \<noteq> []"
  shows "(\<exists>cs. new_calls s (snd (crawl_reviews d unescape (Some url) max_reviews s)) =
               cs @ [DefaultContent]) \<and>
         (default_content_result d = None \<longrightarrow>
            scope (snd (crawl_reviews d unescape (Some url) max_reviews s)) = TopLevel)"
proof -
  obtain cs where "calls (snd (crawl_body d unescape url max_reviews s)) = calls s @ cs"
    using crawl_body_extends [OF surjective_pairing] by blast
  then have "new_calls s (snd (crawl_reviews d unescape (Some url) max_reviews s)) =
               cs @ [DefaultContent]"
    using assms by (simp add: snd_crawl_reviews calls_default_content new_calls_def)
  then show ?thesis
    using assms by (auto simp: snd_crawl_reviews scope_default_content)
qed

theorem crawl_reviews_resets_scope_witness:
  "py ''u'' \<noteq> [] \<and>
   default_content_result (mock_driver page_with_duplicates) = None \<and>
   new_calls stale_session
     (snd (crawl_reviews (mock_driver page_with_duplicates) id (Some (py ''u'')) 2
             stale_session)) =
     [Get (py ''u''), WaitFrame By_ID ''entryIframe'',
      FindElements By_CSS_SELECTOR ''.zPfVt''] @ [DefaultContent] \<and>
   scope (snd (crawl_reviews (mock_driver page_with_duplicates) id (Some (py ''u'')) 2
                 stale_session)) = TopLevel"
proof -
  have url: "py ''u'' \<noteq> []"
    by (simp add: py_def)
  have ok: "default_content_result (mock_driver page_with_duplicates) = None"
    by (simp add: mock_driver_def)
  have run: "new_calls stale_session
     (snd (crawl_reviews (mock_driver page_with_duplicates) id (Some (py ''u'')) 2
             stale_session)) =
     [Get (py ''u''), WaitFrame By_ID ''entryIframe'',
      FindElements By_CSS_SELECTOR ''.zPfVt''] @ [DefaultContent]"
    by code_simp
  from crawl_reviews_resets_scope [OF url, of stale_session "mock_driver page_with_duplicates" id 2]
  show ?thesis
    using url ok run by simp
qed

section \<open>The acceptance filters of Tier 2 and Tier 3\<close>

lemma startswith_iff: "startswith p s \<longleftrightarrow> (\<exists>after. s = p @ after)"
proof
  assume "startswith p s"
  then have "s = p @ drop (length p) s"
    by (metis append_take_drop_id startswith_def)
  then show "\<exists>after. s = p @ after" ..
next
  assume "\<exists>after. s = p @ after"
  then show "startswith p s"
    by (auto simp: startswith_def)
qed

lemma py_in_iff_occurs_in: "py_in sub s \<longleftrightarrow> occurs_in sub s"
proof (induction s)
  case Nil
  then show ?case by (simp add: occurs_in_def)
next
  case (Cons c cs)
  show ?case
  proof
    assume "py_in sub (c # cs)"
    then consider "startswith sub (c # cs)" | "py_in sub cs"
      by auto
    then show "occurs_in sub (c # cs)"
    proof cases
      case 1
      then obtain after where "c # cs = [] @ sub @ after"
        by (auto simp: startswith_iff)
      then show ?thesis
        unfolding occurs_in_def by blast
    next
      case 2
      with Cons.IH obtain before after where "cs = before @ sub @ after"
        by (auto simp: occurs_in_def)
      then have "c # cs = (c # before) @ sub @ after"
        by simp
      then show ?thesis
        unfolding occurs_in_def by blast
    qed
  next
    assume "occurs_in sub (c # cs)"
    then obtain before after where eq: "c # cs = before @ sub @ after"
      by (auto simp: occurs_in_def)
    show "py_in sub (c # cs)"
    proof (cases before)
      case Nil
      with eq have "startswith sub (c # cs)"
        by (auto simp: startswith_iff)
      then show ?thesis by simp
    next
      case (Cons b before')
      with eq have "cs = before' @ sub @ after"
        by simp
      then have "occurs_in sub cs"
        unfolding occurs_in_def by blast
      with Cons.IH show ?thesis by simp
    qed
  qed
qed

lemma any_kw_in_iff: "any_kw_in kws text \<longleftrightarrow> (\<exists>kw \<in> set kws. occurs_in kw text)"
  by (simp add: any_kw_in_def list_ex_iff py_in_iff_occurs_in)

text \<open>
  Claim C4. The Tier 2 filter accepts a text exactly if its length is strictly between 20
  and 1000 and a keyword of the first set occurs in it; the Tier 3 filter exactly if its
  length is strictly between 20 and 500 and a keyword of the second set occurs in it.
  A text of a boundary length, or one without a keyword, is rejected.
\<close>

theorem tier_filters_accept:
  "(tier2_accept text \<longleftrightarrow> spec_accept 20 1000 tier2_keywords text) \<and>
   (tier3_accept text \<longleftrightarrow> spec_accept 20 500 tier3_keywords text) \<and>
   (length text = 20 \<or> length text = 1000 \<or> \<not> any_kw_in tier2_keywords text
      \<longrightarrow> \<not> tier2_accept text) \<and>
   (length text = 20 \<or> length text = 500 \<or> \<not> any_kw_in tier3_keywords text
      \<longrightarrow> \<not> tier3_accept text)"
  by (auto simp: tier2_accept_def tier3_accept_def spec_accept_def any_kw_in_iff)

theorem tier_filters_accept_witness:
  "length text_with_keyword = 21 \<and>
   tier2_accept text_with_keyword \<and> tier3_accept text_with_keyword \<and>
   length (tl text_with_keyword) = 20 \<and>
   \<not> tier2_accept (tl text_with_keyword) \<and> \<not> tier3_accept (tl text_with_keyword)"
proof -
  have len: "length text_with_keyword = 21" "length (tl text_with_keyword) = 20"
    by (simp_all add: text_with_keyword_def)
  have "text_with_keyword = [] @ [52628, 52380] @ replicate 19 97"
    by (simp add: text_with_keyword_def)
  then have occ: "occurs_in [52628, 52380] text_with_keyword"
    unfolding occurs_in_def by blast
  have spec2: "spec_accept 20 1000 tier2_keywords text_with_keyword"
    using len(1) occ by (simp add: spec_accept_def tier2_keywords_def)
  have spec3: "spec_accept 20 500 tier3_keywords text_with_keyword"
    using len(1) occ by (simp add: spec_accept_def tier3_keywords_def)
  note kept = tier_filters_accept [of text_with_keyword]
    and cut = tier_filters_accept [of "tl text_with_keyword"]
  have acc2: "tier2_accept text_with_keyword"
    using kept spec2 by blast
  have acc3: "tier3_accept text_with_keyword"
    using kept spec3 by blast
  have rej2: "\<not> tier2_accept (tl text_with_keyword)"
    using cut len(2) by blast
  have rej3: "\<not> tier3_accept (tl text_with_keyword)"
    using cut len(2) by blast
  show ?thesis
    using len acc2 acc3 rej2 rej3 by blast
qed

section \<open>The view-selector rewrite\<close>














section \<open>Place resolution\<close>

lemma place_selectors_loop_step:
  "place_selectors_loop d (selector # rest) s =
     (case first_link d selector of
        None \<Rightarrow> place_selectors_loop d rest (log_call (FindElements By_CSS_SELECTOR selector) s)
      | Some href \<Rightarrow>
          (Some (review_tab_url href), log_call (FindElements By_CSS_SELECTOR selector) s))"
  by (simp add: first_link_def find_elements_def split: sum.splits list.splits option.splits)

lemma place_selectors_loop_none:
  "\<forall>b \<in> set sels. first_link d b = None \<Longrightarrow>
     place_selectors_loop d sels s =
       (None, s\<lparr>calls := calls s @ map (FindElements By_CSS_SELECTOR) sels\<rparr>)"
proof (induction sels arbitrary: s)
  case Nil
  then show ?case by simp
next
  case (Cons b sels)
  then show ?case
    by (simp add: place_selectors_loop_step log_call_def del: place_selectors_loop.simps)
qed

lemma place_selectors_loop_first:
  "\<forall>b \<in> set before. first_link d b = None \<Longrightarrow> first_link d selector = Some href \<Longrightarrow>
     place_selectors_loop d (before @ selector # rest) s =
       (Some (review_tab_url href),
        s\<lparr>calls := calls s @ map (FindElements By_CSS_SELECTOR) (before @ [selector])\<rparr>)"
proof (induction before arbitrary: s)
  case Nil
  then show ?case
    by (simp add: place_selectors_loop_step log_call_def del: place_selectors_loop.simps)
next
  case (Cons b before)
  then show ?case
    by (simp add: place_selectors_loop_step log_call_def del: place_selectors_loop.simps)
qed

text \<open>
  Claim C8, as amended. The claim as stated fails: when the first pattern matches a link
  whose \<open>href\<close> cannot be read (the read raises), the bare \<open>except: continue\<close> passes on
  to the second pattern, which is queried and supplies the URL.
\<close>

theorem first_match_wins_counterexample:
  "find_elements_result (mock_driver page_stale_first_link) By_CSS_SELECTOR (place_selectors ! 0) =
     Inr [stale_link] \<and>
   new_calls fresh_session
     (snd (search_naver_place (mock_driver page_stale_first_link) Inr (py ''B'') (py ''A'')
             fresh_session)) =
     [Get (py ''https://search.naver.com/search.naver?query=A B''),
      FindElements By_CSS_SELECTOR (place_selectors ! 0),
      FindElements By_CSS_SELECTOR (place_selectors ! 1)] \<and>
   fst (search_naver_place (mock_driver page_stale_first_link) Inr (py ''B'') (py ''A'')
          fresh_session) =
     Inr (Some (py ''https://m.place.naver.com/place/1?entry=pll&placePath=/review''))"
  by code_simp

text \<open>
  Claim C8 (amended). After a successful navigation to the search page, the patterns are
  tried in their order, and the first pattern whose query succeeds with at least one match
  and whose first match has a readable \<open>href\<close> wins: no later pattern is queried, and the
  result is the rewrite of that \<open>href\<close>. A pattern without match, or whose first link cannot
  be read, is passed over. If no pattern wins, the result is \<open>None\<close>, a value and not an
  exception, and every pattern has been queried once.
\<close>

theorem first_readable_link_wins:
  assumes "quote (region @ py '' '' @ destination) = Inr quoted"
    and "get_result d (py ''https://search.naver.com/search.naver?query='' @ quoted) = None"
  shows
    "(place_selectors = before @ selector # rest \<and>
      (\<forall>b \<in> set before. first_link d b = None) \<and> first_link d selector = Some href \<longrightarrow>
        fst (search_naver_place d quote destination region s) = Inr (Some (review_tab_url href)) \<and>
        new_calls s (snd (search_naver_place d quote destination region s)) =
          Get (py ''https://search.naver.com/search.naver?query='' @ quoted) #
          map (FindElements By_CSS_SELECTOR) (before @ [selector])) \<and>
     ((\<forall>b \<in> set place_selectors. first_link d b = None) \<longrightarrow>
        fst (search_naver_place d quote destination region s) = Inr None \<and>
        new_calls s (snd (search_naver_place d quote destination region s)) =
          Get (py ''https://search.naver.com/search.naver?query='' @ quoted) #
          map (FindElements By_CSS_SELECTOR) place_selectors)"
proof (intro conjI impI)
  assume h: "place_selectors = before @ selector # rest \<and>
      (\<forall>b \<in> set before. first_link d b = None) \<and> first_link d selector = Some href"
  then have loop: "\<And>t. place_selectors_loop d place_selectors t =
       (Some (review_tab_url href),
        t\<lparr>calls := calls t @ map (FindElements By_CSS_SELECTOR) (before @ [selector])\<rparr>)"
    using place_selectors_loop_first [of before d selector href rest] by simp
  show "fst (search_naver_place d quote destination region s) = Inr (Some (review_tab_url href))"
    using assms by (simp add: search_naver_place_def driver_get_def loop Let_def)
  show "new_calls s (snd (search_naver_place d quote destination region s)) =
          Get (py ''https://search.naver.com/search.naver?query='' @ quoted) #
          map (FindElements By_CSS_SELECTOR) (before @ [selector])"
    using assms by (simp add: search_naver_place_def driver_get_def loop new_calls_def log_call_def Let_def)
next
  assume h: "\<forall>b \<in> set place_selectors. first_link d b = None"
  then have loop: "\<And>t. place_selectors_loop d place_selectors t =
       (None, t\<lparr>calls := calls t @ map (FindElements By_CSS_SELECTOR) place_selectors\<rparr>)"
    by (rule place_selectors_loop_none)
  show "fst (search_naver_place d quote destination region s) = Inr None"
    using assms by (simp add: search_naver_place_def driver_get_def loop Let_def)
  show "new_calls s (snd (search_naver_place d quote destination region s)) =
          Get (py ''https://search.naver.com/search.naver?query='' @ quoted) #
          map (FindElements By_CSS_SELECTOR) place_selectors"
    using assms by (simp add: search_naver_place_def driver_get_def loop new_calls_def log_call_def Let_def)
qed

theorem first_readable_link_wins_witness:
  "first_link (mock_driver page_stale_first_link) (place_selectors ! 0) = None \<and>
   first_link (mock_driver page_stale_first_link) (place_selectors ! 1) =
     Some (py ''https://m.place.naver.com/place/1?entry=pll'') \<and>
   fst (search_naver_place (mock_driver page_stale_first_link) Inr (py ''B'') (py ''A'')
          fresh_session) =
     Inr (Some (review_tab_url (py ''https://m.place.naver.com/place/1?entry=pll''))) \<and>
   new_calls fresh_session
     (snd (search_naver_place (mock_driver page_stale_first_link) Inr (py ''B'') (py ''A'')
             fresh_session)) =
     Get (py ''https://search.naver.com/search.naver?query='' @ py ''A'' @ py '' '' @ py ''B'') #
     map (FindElements By_CSS_SELECTOR) ([place_selectors ! 0] @ [place_selectors ! 1]) \<and>
   fst (search_naver_place (mock_driver empty_page) Inr (py ''B'') (py ''A'') fresh_session) =
     Inr None \<and>
   new_calls fresh_session
     (snd (search_naver_place (mock_driver empty_page) Inr (py ''B'') (py ''A'') fresh_session)) =
     Get (py ''https://search.naver.com/search.naver?query='' @ py ''A'' @ py '' '' @ py ''B'') #
     map (FindElements By_CSS_SELECTOR) place_selectors"
proof -
  let ?d = "mock_driver page_stale_first_link"
  let ?href = "py ''https://m.place.naver.com/place/1?entry=pll''"
  have quoted: "Inr (py ''A'' @ py '' '' @ py ''B'') = (Inr (py ''A'' @ py '' '' @ py ''B'') :: exn + pystr)"
    by simp
  have nav: "get_result ?d
      (py ''https://search.naver.com/search.naver?query='' @ py ''A'' @ py '' '' @ py ''B'') = None"
    by (simp add: mock_driver_def)
  have nav': "get_result (mock_driver empty_page)
      (py ''https://search.naver.com/search.naver?query='' @ py ''A'' @ py '' '' @ py ''B'') = None"
    by (simp add: mock_driver_def)
  have sels: "place_selectors = [place_selectors ! 0] @ place_selectors ! 1 # [place_selectors ! 2]"
    by (simp add: place_selectors_def)
  have stale: "first_link ?d (place_selectors ! 0) = None"
    by (simp add: first_link_def mock_driver_def page_stale_first_link_def stale_link_def)
  have link: "first_link ?d (place_selectors ! 1) = Some ?href"
    by (simp add: first_link_def mock_driver_def page_stale_first_link_def link_node_def
        place_selectors_def)
  have no_links: "\<forall>b \<in> set place_selectors. first_link (mock_driver empty_page) b = None"
    by (simp add: first_link_def mock_driver_def empty_page_def)
  note found = first_readable_link_wins [where quote = Inr and region = "py ''A''"
        and destination = "py ''B''" and quoted = "py ''A'' @ py '' '' @ py ''B''" and d = ?d
        and before = "[place_selectors ! 0]" and selector = "place_selectors ! 1"
        and rest = "[place_selectors ! 2]" and href = ?href and s = fresh_session,
      OF quoted nav]
  note not_found = first_readable_link_wins [where quote = Inr and region = "py ''A''"
        and destination = "py ''B''" and quoted = "py ''A'' @ py '' '' @ py ''B''"
        and d = "mock_driver empty_page" and s = fresh_session,
      OF quoted nav']
  have r1: "fst (search_naver_place ?d Inr (py ''B'') (py ''A'') fresh_session) =
              Inr (Some (review_tab_url ?href)) \<and>
            new_calls fresh_session
              (snd (search_naver_place ?d Inr (py ''B'') (py ''A'') fresh_session)) =
              Get (py ''https://search.naver.com/search.naver?query='' @ py ''A'' @ py '' '' @
                   py ''B'') #
              map (FindElements By_CSS_SELECTOR) ([place_selectors ! 0] @ [place_selectors ! 1])"
    using found sels stale link by simp
  have r2: "fst (search_naver_place (mock_driver empty_page) Inr (py ''B'') (py ''A'')
                   fresh_session) = Inr None \<and>
            new_calls fresh_session
              (snd (search_naver_place (mock_driver empty_page) Inr (py ''B'') (py ''A'')
                      fresh_session)) =
              Get (py ''https://search.naver.com/search.naver?query='' @ py ''A'' @ py '' '' @
                   py ''B'') #
              map (FindElements By_CSS_SELECTOR) place_selectors"
    using no_links not_found [THEN conjunct2] by blast
  show ?thesis
    using stale link r1 r2 by blast
qed

section \<open>The fallback destinations\<close>

lemma default_destinations_five:
  "default_destinations region = Some names \<Longrightarrow> length names = 5"
  by (auto simp: default_destinations_def split: if_splits)

lemma default_destinations_dom:
  "default_destinations region \<noteq> None \<longleftrightarrow>
     region \<in> {[49436, 50872], [48512, 49328], [44221, 51452]}"
  by (simp add: default_destinations_def)

text \<open>
  Claim C9, as amended. The claim as stated fails where the collaborator answers but
  names nothing usable: for an empty response, and for a response that holds only an
  ordinal (\<open>1.\<close>), \<open>get_travel_destinations\<close> returns the empty list, also for a known
  region. The fallback lists are reached through the \<open>except\<close> branch only.
\<close>

theorem no_usable_names_counterexample:
  "get_travel_destinations (Inr []) [49436, 50872] = Inr [] \<and>
   get_travel_destinations (Inr (py ''1.'')) [49436, 50872] = Inr []"
  by (simp add: get_travel_destinations_def py_strip_def py_slice_to_def py_def
      py_isspace_def strip_ordinal_def py_isdecimal_def decimal_ranges_def)

text \<open>
  Claim C9 (amended). If the collaborator call raises an \<open>Exception\<close>,
  \<open>get_travel_destinations\<close> returns five names: the hardcoded list of the region when the
  region is one of the three known ones, and the generic placeholder list otherwise.
\<close>

theorem fallback_on_exception:
  assumes "is_Exception e"
  shows "\<exists>names. get_travel_destinations (Inl e) region = Inr names \<and> length names = 5 \<and>
           (if region \<in> {[49436, 50872], [48512, 49328], [44221, 51452]}
            then default_destinations region = Some names
            else names = generic_destinations)"
proof (cases "default_destinations region")
  case None
  then have "region \<notin> {[49436, 50872], [48512, 49328], [44221, 51452]}"
    using default_destinations_dom [of region] by simp
  moreover have "get_travel_destinations (Inl e) region = Inr generic_destinations"
    using assms None by (simp add: get_travel_destinations_def)
  moreover have "length generic_destinations = 5"
    by (simp add: generic_destinations_def)
  ultimately show ?thesis
    by simp
next
  case (Some names)
  then have "region \<in> {[49436, 50872], [48512, 49328], [44221, 51452]}"
    using default_destinations_dom [of region] by simp
  moreover have "get_travel_destinations (Inl e) region = Inr names"
    using assms Some by (simp add: get_travel_destinations_def)
  moreover have "length names = 5"
    using Some by (rule default_destinations_five)
  ultimately show ?thesis
    using Some by simp
qed

theorem fallback_on_exception_witness:
  "is_Exception TimeoutException \<and>
   get_travel_destinations (Inl TimeoutException) [49436, 50872] =
     Inr [[44221, 48373, 44417], [47749, 46041], [54861, 45824], [44053, 45224],
          [54620, 44053, 44277, 50896]] \<and>
   get_travel_destinations (Inl TimeoutException) (py ''Jeju'') = Inr generic_destinations"
proof -
  have exc: "is_Exception TimeoutException"
    by simp
  have seoul: "default_destinations [49436, 50872] =
      Some [[44221, 48373, 44417], [47749, 46041], [54861, 45824], [44053, 45224],
            [54620, 44053, 44277, 50896]]"
    by (simp add: default_destinations_def)
  have jeju: "py ''Jeju'' \<notin> {[49436, 50872], [48512, 49328], [44221, 51452]}"
    by (simp add: py_def)
  from fallback_on_exception [OF exc, of "[49436, 50872]"] seoul
  have r1: "get_travel_destinations (Inl TimeoutException) [49436, 50872] =
     Inr [[44221, 48373, 44417], [47749, 46041], [54861, 45824], [44053, 45224],
          [54620, 44053, 44277, 50896]]"
    by auto
  from fallback_on_exception [OF exc, of "py ''Jeju''"] jeju
  have r2: "get_travel_destinations (Inl TimeoutException) (py ''Jeju'') =
              Inr generic_destinations"
    by auto
  show ?thesis
    using exc r1 r2 by blast
qed

end
